theory Spec2Isabelle
  imports Complex_Main
begin

section \<open>The configuration object of newspaper (src/newspaper/configuration.py)\<close>

text \<open>
  The module defines one class, \<open>Configuration\<close>, and two subclasses whose bodies are
  \<open>pass\<close>. An instance is a bag of attributes; four properties delegate to the
  dictionary \<open>requests_params\<close>, and the \<open>language\<close> property validates its value
  and recomputes \<open>stopwords_class\<close>.

  The embedding is state passing: every property and method takes the instance and
  returns its result together with the instance as the call leaves it. A \<open>raise\<close> is
  the value \<open>Inl e\<close>, returned with the instance as it is at the moment of the raise.
\<close>

subsection \<open>Collaborators that the module imports\<close>

text \<open>
  The seven stopword classes imported from \<open>.text\<close> and the class \<open>Parser\<close> imported
  from \<open>.parsers\<close> are only referred to, never called: each is a constant.
\<close>

datatype stopwords =
    StopWords
  | StopWordsArabic
  | StopWordsChinese
  | StopWordsKorean
  | StopWordsHindi
  | StopWordsJapanese
  | StopWordsThai

datatype parser_class = Parser

text \<open>
  Python values that a caller may store under a key of a dictionary: \<open>None\<close>, booleans,
  integers, strings, and dictionaries with string keys. A string is a list of
  characters; \<open>len\<close> is \<open>length\<close>.
\<close>

datatype pyval =
    PyNone
  | PyBool bool
  | PyInt int
  | PyStr string
  | PyDict "string \<Rightarrow> pyval option"

text \<open>
  A \<open>http.cookiejar.CookieJar\<close> object. \<open>cj()\<close> allocates a new object on every call;
  \<open>jar_id\<close> is the identity that the allocation gives it, \<open>jar_cookies\<close> its content.
\<close>

datatype cookiejar = CookieJar (jar_id: nat) (jar_cookies: "string list")

text \<open>
  The two \<open>raise ValueError(...)\<close> of the language setter. The message texts are
  abstracted to their kind; the second message interpolates the offending value.
\<close>

datatype message = Must_be_2_char_code | Not_supported string

text \<open>
  The interpreter raises \<open>AttributeError\<close> when an attribute is read that the object does
  not have (an instance without \<open>requests_params\<close>, \<open>.get\<close> on a value that is not a
  dictionary), and \<open>TypeError\<close> when an item is assigned in a value that is not a
  dictionary.
\<close>

datatype error = ValueError message | AttributeError | TypeError

subsection \<open>The attributes\<close>

text \<open>
  \<open>requests_params\<close> is a dictionary with the keys \<open>"timeout"\<close>, \<open>"proxies"\<close>,
  \<open>"headers"\<close> and \<open>"cookies"\<close>. A key that is missing from the dictionary is \<open>None\<close>
  here (the caller may have replaced the dictionary by one with fewer keys); a key that
  is present holds any value, \<open>Some PyNone\<close> when the value is Python's \<open>None\<close>. The
  module never reads the key \<open>"cookies"\<close>.
\<close>

record requests_params_dict =
  rp_timeout :: "pyval option"
  rp_proxies :: "pyval option"
  rp_headers :: "pyval option"
  rp_cookies :: "cookiejar option"

text \<open>
  The attributes that \<open>__init__\<close> assigns, under their names in the source;
  \<open>_language\<close> is \<open>private_language\<close>. \<open>image_dimension_ration\<close> holds the double
  that \<open>16 / 9.0\<close> evaluates to, as the rational number it is. The attribute
  \<open>requests_params\<close> is \<open>None\<close> on an instance that does not have it (after
  \<open>del config.requests_params\<close>); reading it then raises \<open>AttributeError\<close>.
\<close>

record config =
  MIN_WORD_COUNT :: int
  MIN_SENT_COUNT :: int
  MAX_TITLE :: int
  MAX_TEXT :: int
  MAX_KEYWORDS :: int
  MAX_AUTHORS :: int
  MAX_SUMMARY :: int
  MAX_SUMMARY_SENT :: int
  MAX_FILE_MEMO :: int
  memoize_articles :: bool
  fetch_images :: bool
  image_dimension_ration :: rat
  follow_meta_refresh :: bool
  use_meta_language :: bool
  keep_article_html :: bool
  http_success_only :: bool
  private_language :: string
  stopwords_class :: stopwords
  requests_params :: "requests_params_dict option"
  number_threads :: int
  verbose :: bool
  thread_timeout_seconds :: int
  ignored_content_types_defaults :: "string \<rightharpoonup> pyval"

subsection \<open>\<open>__init__\<close>\<close>

text \<open>
  \<open>__version__\<close> comes from \<open>.version\<close>, which is not part of the sources at hand: it
  is the parameter \<open>version\<close>. The second parameter is the number of cookie jars
  allocated so far; \<open>cj()\<close> takes the next identity and the count is returned increased.
\<close>

definition construct :: "string \<Rightarrow> nat \<Rightarrow> config \<times> nat" where
  "construct version n =
     (\<lparr> MIN_WORD_COUNT = 300,
        MIN_SENT_COUNT = 7,
        MAX_TITLE = 200,
        MAX_TEXT = 100000,
        MAX_KEYWORDS = 35,
        MAX_AUTHORS = 10,
        MAX_SUMMARY = 5000,
        MAX_SUMMARY_SENT = 5,
        MAX_FILE_MEMO = 20000,
        memoize_articles = True,
        fetch_images = True,
        image_dimension_ration = 2001599834386887 / 1125899906842624,
        follow_meta_refresh = False,
        use_meta_language = True,
        keep_article_html = False,
        http_success_only = True,
        private_language = ''en'',
        stopwords_class = StopWords,
        requests_params =
          Some \<lparr> rp_timeout = Some (PyInt 7),
            rp_proxies = Some (PyDict Map.empty),
            rp_headers =
              Some (PyDict [''User-Agent'' \<mapsto> PyStr (''newspaper/'' @ version)]),
            rp_cookies = Some (CookieJar n []) \<rparr>,
        number_threads = 10,
        verbose = False,
        thread_timeout_seconds = 1,
        ignored_content_types_defaults = Map.empty \<rparr>,
      Suc n)"

subsection \<open>The properties that delegate to \<open>requests_params\<close>\<close>

text \<open>\<open>d.get(k)\<close> of a dictionary: the value under the key, \<open>None\<close> when it is missing.\<close>

definition dict_get :: "('k \<rightharpoonup> pyval) \<Rightarrow> 'k \<Rightarrow> pyval" where
  "dict_get d k = (case d k of None \<Rightarrow> PyNone | Some v \<Rightarrow> v)"

text \<open>
  The getter and the setter of \<open>browser_user_agent\<close> both start with
  \<open>if "headers" not in self.requests_params: self.requests_params["headers"] = {}\<close>.
  The guard looks at the key only: when the key is present with a value that is not a
  dictionary, \<open>.get("User-Agent")\<close> raises \<open>AttributeError\<close> and the item assignment
  raises \<open>TypeError\<close>.
\<close>

definition browser_user_agent :: "config \<Rightarrow> (error + pyval) \<times> config" where
  "browser_user_agent self =
     (case requests_params self of
        None \<Rightarrow> (Inl AttributeError, self)
      | Some rp \<Rightarrow>
          (case rp_headers rp of
             None \<Rightarrow>
               (Inr (dict_get Map.empty ''User-Agent''),
                self\<lparr>requests_params := Some (rp\<lparr>rp_headers := Some (PyDict Map.empty)\<rparr>)\<rparr>)
           | Some (PyDict h) \<Rightarrow> (Inr (dict_get h ''User-Agent''), self)
           | Some _ \<Rightarrow> (Inl AttributeError, self)))"

definition browser_user_agent_setter :: "pyval \<Rightarrow> config \<Rightarrow> (error + unit) \<times> config" where
  "browser_user_agent_setter v self =
     (case requests_params self of
        None \<Rightarrow> (Inl AttributeError, self)
      | Some rp \<Rightarrow>
          (case rp_headers rp of
             None \<Rightarrow>
               (Inr (),
                self\<lparr>requests_params :=
                  Some (rp\<lparr>rp_headers := Some (PyDict (Map.empty(''User-Agent'' \<mapsto> v)))\<rparr>)\<rparr>)
           | Some (PyDict h) \<Rightarrow>
               (Inr (),
                self\<lparr>requests_params :=
                  Some (rp\<lparr>rp_headers := Some (PyDict (h(''User-Agent'' \<mapsto> v)))\<rparr>)\<rparr>)
           | Some _ \<Rightarrow> (Inl TypeError, self)))"

text \<open>
  \<open>self.requests_params.get(key)\<close>: the value under the key, \<open>None\<close> when the key is
  missing; \<open>self.requests_params[key] = value\<close> stores any value.
\<close>

definition headers :: "config \<Rightarrow> (error + pyval) \<times> config" where
  "headers self =
     (case requests_params self of
        None \<Rightarrow> (Inl AttributeError, self)
      | Some rp \<Rightarrow> (Inr (case rp_headers rp of None \<Rightarrow> PyNone | Some v \<Rightarrow> v), self))"

definition headers_setter :: "pyval \<Rightarrow> config \<Rightarrow> (error + unit) \<times> config" where
  "headers_setter v self =
     (case requests_params self of
        None \<Rightarrow> (Inl AttributeError, self)
      | Some rp \<Rightarrow> (Inr (), self\<lparr>requests_params := Some (rp\<lparr>rp_headers := Some v\<rparr>)\<rparr>))"

definition request_timeout :: "config \<Rightarrow> (error + pyval) \<times> config" where
  "request_timeout self =
     (case requests_params self of
        None \<Rightarrow> (Inl AttributeError, self)
      | Some rp \<Rightarrow> (Inr (case rp_timeout rp of None \<Rightarrow> PyNone | Some v \<Rightarrow> v), self))"

definition request_timeout_setter :: "pyval \<Rightarrow> config \<Rightarrow> (error + unit) \<times> config" where
  "request_timeout_setter v self =
     (case requests_params self of
        None \<Rightarrow> (Inl AttributeError, self)
      | Some rp \<Rightarrow> (Inr (), self\<lparr>requests_params := Some (rp\<lparr>rp_timeout := Some v\<rparr>)\<rparr>))"

definition proxies :: "config \<Rightarrow> (error + pyval) \<times> config" where
  "proxies self =
     (case requests_params self of
        None \<Rightarrow> (Inl AttributeError, self)
      | Some rp \<Rightarrow> (Inr (case rp_proxies rp of None \<Rightarrow> PyNone | Some v \<Rightarrow> v), self))"

definition proxies_setter :: "pyval \<Rightarrow> config \<Rightarrow> (error + unit) \<times> config" where
  "proxies_setter v self =
     (case requests_params self of
        None \<Rightarrow> (Inl AttributeError, self)
      | Some rp \<Rightarrow> (Inr (), self\<lparr>requests_params := Some (rp\<lparr>rp_proxies := Some v\<rparr>)\<rparr>))"

subsection \<open>The language property and the stopword classes\<close>

text \<open>The chain of \<open>if\<close> / \<open>elif\<close> of the static method, in its order.\<close>

definition get_stopwords_class :: "string \<Rightarrow> stopwords" where
  "get_stopwords_class language =
     (if language = ''ko'' then StopWordsKorean
      else if language = ''hi'' then StopWordsHindi
      else if language = ''zh'' then StopWordsChinese
      else if language = ''ar'' \<or> language = ''fa'' then StopWordsArabic
      else if language = ''ja'' then StopWordsJapanese
      else if language = ''th'' then StopWordsThai
      else StopWords)"

definition get_parser :: parser_class where
  "get_parser = Parser"

definition language :: "config \<Rightarrow> string \<times> config" where
  "language self = (private_language self, self)"

text \<open>
  \<open>get_available_languages\<close> comes from \<open>newspaper.utils\<close>, which is not part of the
  sources at hand: \<open>available\<close> is the list \<open>list(get_available_languages())\<close>. The
  value assigned is a string or \<open>None\<close>; \<open>not value\<close> holds for \<open>None\<close> and for the
  empty string. The three assignments follow the two checks, in the order of the source.
\<close>

definition language_setter :: "string list \<Rightarrow> string option \<Rightarrow> config \<Rightarrow> (error + unit) \<times> config" where
  "language_setter available v self =
     (case v of
        None \<Rightarrow> (Inl (ValueError Must_be_2_char_code), self)
      | Some s \<Rightarrow>
          if s = [] \<or> length s \<noteq> 2 then (Inl (ValueError Must_be_2_char_code), self)
          else if s \<notin> set available then (Inl (ValueError (Not_supported s)), self)
          else
            (let self1 = self\<lparr>use_meta_language := False\<rparr>;
                 self2 = self1\<lparr>private_language := s\<rparr>;
                 self3 = self2\<lparr>stopwords_class := get_stopwords_class s\<rparr>
             in (Inr (), self3)))"

subsection \<open>The operations of an instance\<close>

text \<open>
  One constructor for each read and each assignment of a property and for each call of a
  static method, with what the call returns.
\<close>

datatype op =
    Get_browser_user_agent
  | Set_browser_user_agent pyval
  | Get_headers
  | Set_headers pyval
  | Get_request_timeout
  | Set_request_timeout pyval
  | Get_proxies
  | Set_proxies pyval
  | Get_language
  | Set_language "string option"
  | Call_get_stopwords_class string
  | Call_get_parser

datatype retval =
    Ret_none
  | Ret_val pyval
  | Ret_str string
  | Ret_stopwords stopwords
  | Ret_parser parser_class

type_synonym outcome = "(error + retval) \<times> config"

text \<open>What a property returns or raises, as the outcome of the operation.\<close>

definition returning :: "('a \<Rightarrow> retval) \<Rightarrow> (error + 'a) \<times> config \<Rightarrow> outcome" where
  "returning f r = (case fst r of Inl e \<Rightarrow> Inl e | Inr a \<Rightarrow> Inr (f a), snd r)"

fun call :: "string list \<Rightarrow> op \<Rightarrow> config \<Rightarrow> outcome" where
  "call available Get_browser_user_agent self = returning Ret_val (browser_user_agent self)"
| "call available (Set_browser_user_agent v) self =
     returning (\<lambda>u. Ret_none) (browser_user_agent_setter v self)"
| "call available Get_headers self = returning Ret_val (headers self)"
| "call available (Set_headers v) self = returning (\<lambda>u. Ret_none) (headers_setter v self)"
| "call available Get_request_timeout self = returning Ret_val (request_timeout self)"
| "call available (Set_request_timeout v) self =
     returning (\<lambda>u. Ret_none) (request_timeout_setter v self)"
| "call available Get_proxies self = returning Ret_val (proxies self)"
| "call available (Set_proxies v) self = returning (\<lambda>u. Ret_none) (proxies_setter v self)"
| "call available Get_language self =
     (Inr (Ret_str (fst (language self))), snd (language self))"
| "call available (Set_language v) self =
     returning (\<lambda>u. Ret_none) (language_setter available v self)"
| "call available (Call_get_stopwords_class l) self =
     (Inr (Ret_stopwords (get_stopwords_class l)), self)"
| "call available Call_get_parser self = (Inr (Ret_parser get_parser), self)"

text \<open>The operations whose code reads \<open>self.requests_params\<close>.\<close>

fun reads_requests_params :: "op \<Rightarrow> bool" where
  "reads_requests_params Get_language = False"
| "reads_requests_params (Set_language v) = False"
| "reads_requests_params (Call_get_stopwords_class l) = False"
| "reads_requests_params Call_get_parser = False"
| "reads_requests_params x = True"

subsection \<open>The three classes\<close>

text \<open>
  \<open>class ArticleConfiguration(Configuration): pass\<close> and
  \<open>class SourceConfiguration(Configuration): pass\<close>. A class body is a dictionary from
  names to what the body defines; an attribute of an instance is looked up in the bodies
  of the classes of the method resolution order, first hit first. The body of
  \<open>Configuration\<close> defines \<open>__init__\<close> and every operation above; the other two bodies
  define nothing. A name that no class of the order defines is an \<open>AttributeError\<close>.
\<close>

datatype py_class = Configuration | ArticleConfiguration | SourceConfiguration

fun mro :: "py_class \<Rightarrow> py_class list" where
  "mro Configuration = [Configuration]"
| "mro ArticleConfiguration = [ArticleConfiguration, Configuration]"
| "mro SourceConfiguration = [SourceConfiguration, Configuration]"

fun body_init :: "py_class \<Rightarrow> (string \<Rightarrow> nat \<Rightarrow> config \<times> nat) option" where
  "body_init Configuration = Some construct"
| "body_init ArticleConfiguration = None"
| "body_init SourceConfiguration = None"

fun body_op :: "op \<Rightarrow> py_class \<Rightarrow> (string list \<Rightarrow> config \<Rightarrow> outcome) option" where
  "body_op x Configuration = Some (\<lambda>available self. call available x self)"
| "body_op x ArticleConfiguration = None"
| "body_op x SourceConfiguration = None"

fun mro_lookup :: "('c \<Rightarrow> 'a option) \<Rightarrow> 'c list \<Rightarrow> 'a option" where
  "mro_lookup body [] = None"
| "mro_lookup body (c # cs) =
     (case body c of Some d \<Rightarrow> Some d | None \<Rightarrow> mro_lookup body cs)"

definition instantiate :: "py_class \<Rightarrow> string \<Rightarrow> nat \<Rightarrow> (config \<times> nat) option" where
  "instantiate cls version n =
     (case mro_lookup body_init (mro cls) of
        None \<Rightarrow> None
      | Some init \<Rightarrow> Some (init version n))"

definition invoke :: "py_class \<Rightarrow> string list \<Rightarrow> op \<Rightarrow> config \<Rightarrow> outcome" where
  "invoke cls available x self =
     (case mro_lookup (body_op x) (mro cls) of
        None \<Rightarrow> (Inl AttributeError, self)
      | Some m \<Rightarrow> m available self)"

text \<open>
  A sequence of operations on one instance. An operation that raises leaves the instance
  as it is at the raise, and the caller goes on with the next operation.
\<close>

fun exec :: "py_class \<Rightarrow> string list \<Rightarrow> op list \<Rightarrow> config \<Rightarrow> (error + retval) list \<times> config" where
  "exec cls available [] self = ([], self)"
| "exec cls available (x # xs) self =
     (let (r, self1) = invoke cls available x self;
          (rs, self2) = exec cls available xs self1
      in (r # rs, self2))"

subsection \<open>The invariant of the language setter\<close>

text \<open>
  \<open>stopwords_class\<close> is the class that \<open>get_stopwords_class\<close> gives for the language
  held in \<open>_language\<close>.
\<close>

definition consistent :: "config \<Rightarrow> bool" where
  "consistent self \<longleftrightarrow> stopwords_class self = get_stopwords_class (private_language self)"

section \<open>Lemmas about the operations\<close>

text \<open>
  Looking an operation up along the method resolution order of any of the three classes
  ends in the body of \<open>Configuration\<close>.
\<close>

lemma invoke_call: "invoke cls available x self = call available x self"
  by (cases cls) (simp_all add: invoke_def)

lemma instantiate_construct: "instantiate cls version n = Some (construct version n)"
  by (cases cls) (simp_all add: instantiate_def)

lemma exec_Cons_snd:
  "snd (exec cls available (x # xs) self) =
     snd (exec cls available xs (snd (call available x self)))"
  by (simp add: invoke_call split: prod.splits)

lemma exec_append_snd:
  "snd (exec cls available (xs @ ys) self) =
     snd (exec cls available ys (snd (exec cls available xs self)))"
proof (induction xs arbitrary: self)
  case Nil
  show ?case by simp
next
  case (Cons x xs)
  have "snd (exec cls available ((x # xs) @ ys) self) =
      snd (exec cls available (xs @ ys) (snd (call available x self)))"
    by (simp only: append_Cons exec_Cons_snd)
  also have "\<dots> = snd (exec cls available ys
      (snd (exec cls available xs (snd (call available x self)))))"
    by (rule Cons.IH)
  finally show ?case by (simp only: exec_Cons_snd)
qed

lemma returning_fst: "isl (fst (returning f r)) \<longleftrightarrow> isl (fst r)"
  by (cases "fst r") (simp_all add: returning_def)

lemma returning_snd: "snd (returning f r) = snd r"
  by (simp add: returning_def)

lemma returning_error: "fst (returning f r) = Inl e \<longleftrightarrow> fst r = Inl e"
  by (cases "fst r") (simp_all add: returning_def)

lemma language_setter_raises:
  "isl (fst (language_setter available v self)) \<longleftrightarrow>
     (v = None \<or> (\<exists>s. v = Some s \<and> (length s \<noteq> 2 \<or> s \<notin> set available)))"
  by (cases v) (auto simp: language_setter_def Let_def)

lemma language_setter_unchanged:
  assumes "isl (fst (language_setter available v self))"
  shows "snd (language_setter available v self) = self"
proof (cases v)
  case None
  then show ?thesis by (simp add: language_setter_def)
next
  case (Some s)
  show ?thesis
  proof (cases "s = [] \<or> length s \<noteq> 2")
    case True
    with Some show ?thesis by (simp add: language_setter_def)
  next
    case short: False
    show ?thesis
    proof (cases "s \<in> set available")
      case True
      with Some short assms have False by (simp add: language_setter_def Let_def)
      then show ?thesis ..
    next
      case False
      with Some short show ?thesis by (simp add: language_setter_def)
    qed
  qed
qed

lemma language_setter_error_kind:
  "fst (language_setter available v self) = Inl e \<Longrightarrow> \<exists>m. e = ValueError m"
  by (cases v) (auto simp: language_setter_def Let_def split: if_splits)

lemma language_setter_stores:
  assumes "length s = 2" and "s \<in> set available"
  shows "fst (language_setter available (Some s) self) = Inr ()"
    and "private_language (snd (language_setter available (Some s) self)) = s"
    and "stopwords_class (snd (language_setter available (Some s) self)) = get_stopwords_class s"
    and "use_meta_language (snd (language_setter available (Some s) self)) = False"
    and "requests_params (snd (language_setter available (Some s) self)) = requests_params self"
  using assms by (auto simp: language_setter_def Let_def)

text \<open>
  The properties that delegate to \<open>requests_params\<close> write no attribute but
  \<open>requests_params\<close>.
\<close>

lemma accessor_other_attributes:
  assumes "reads_requests_params x"
  shows "use_meta_language (snd (call available x self)) = use_meta_language self"
    and "private_language (snd (call available x self)) = private_language self"
    and "stopwords_class (snd (call available x self)) = stopwords_class self"
  using assms
  by (cases x; simp add: returning_snd browser_user_agent_def browser_user_agent_setter_def
      headers_def headers_setter_def request_timeout_def request_timeout_setter_def
      proxies_def proxies_setter_def split: option.splits pyval.splits)+

text \<open>When an operation raises.\<close>

lemma accessor_raises:
  assumes "reads_requests_params x"
  shows "isl (fst (call available x self)) \<longleftrightarrow>
     requests_params self = None \<or>
     ((x = Get_browser_user_agent \<or> (\<exists>u. x = Set_browser_user_agent u)) \<and>
      (\<exists>rp w. requests_params self = Some rp \<and> rp_headers rp = Some w \<and>
         (\<forall>d. w \<noteq> PyDict d)))"
  using assms
  by (cases x; simp add: returning_fst browser_user_agent_def browser_user_agent_setter_def
      headers_def headers_setter_def request_timeout_def request_timeout_setter_def
      proxies_def proxies_setter_def split: option.splits pyval.splits)

lemma call_raises:
  "isl (fst (call available x self)) \<longleftrightarrow>
     (\<exists>v. x = Set_language v \<and>
        (v = None \<or> (\<exists>s. v = Some s \<and> (length s \<noteq> 2 \<or> s \<notin> set available)))) \<or>
     (reads_requests_params x \<and> requests_params self = None) \<or>
     ((x = Get_browser_user_agent \<or> (\<exists>u. x = Set_browser_user_agent u)) \<and>
      (\<exists>rp w. requests_params self = Some rp \<and> rp_headers rp = Some w \<and>
         (\<forall>d. w \<noteq> PyDict d)))"
proof (cases "reads_requests_params x")
  case True
  then have "\<forall>v. x \<noteq> Set_language v" by auto
  with True show ?thesis by (simp add: accessor_raises)
next
  case False
  then show ?thesis
    by (cases x) (simp_all add: returning_fst language_setter_raises)
qed

text \<open>
  The three attributes that the language setter writes, after one operation and after a
  sequence: an operation other than the assignment of a supported two-character code
  leaves them as they are.
\<close>

lemma call_keeps_language:
  assumes "\<not> (\<exists>s \<in> set available. length s = 2 \<and> x = Set_language (Some s))"
  shows "use_meta_language (snd (call available x self)) = use_meta_language self"
    and "private_language (snd (call available x self)) = private_language self"
    and "stopwords_class (snd (call available x self)) = stopwords_class self"
proof -
  have "use_meta_language (snd (call available x self)) = use_meta_language self \<and>
      private_language (snd (call available x self)) = private_language self \<and>
      stopwords_class (snd (call available x self)) = stopwords_class self"
  proof (cases "reads_requests_params x")
    case True
    then show ?thesis by (simp add: accessor_other_attributes)
  next
    case False
    show ?thesis
    proof (cases x)
      case (Set_language v)
      with assms have "isl (fst (language_setter available v self))"
        by (cases v) (auto simp: language_setter_raises)
      then have "snd (language_setter available v self) = self"
        by (rule language_setter_unchanged)
      with Set_language show ?thesis by (simp add: returning_snd)
    qed (use False in \<open>simp_all add: language_def\<close>)
  qed
  then show "use_meta_language (snd (call available x self)) = use_meta_language self"
    and "private_language (snd (call available x self)) = private_language self"
    and "stopwords_class (snd (call available x self)) = stopwords_class self"
    by simp_all
qed

lemma call_assigns_language:
  assumes "length s = 2" and "s \<in> set available"
  shows "use_meta_language (snd (call available (Set_language (Some s)) self)) = False"
    and "private_language (snd (call available (Set_language (Some s)) self)) = s"
    and "stopwords_class (snd (call available (Set_language (Some s)) self)) =
      get_stopwords_class s"
  using assms by (simp_all add: returning_snd language_setter_stores)

lemma exec_keeps_language:
  assumes "\<not> (\<exists>s \<in> set available. length s = 2 \<and> Set_language (Some s) \<in> set xs)"
  shows "use_meta_language (snd (exec cls available xs self)) = use_meta_language self \<and>
     private_language (snd (exec cls available xs self)) = private_language self \<and>
     stopwords_class (snd (exec cls available xs self)) = stopwords_class self"
  using assms
proof (induction xs arbitrary: self)
  case Nil
  show ?case by simp
next
  case (Cons x xs)
  from Cons.prems
  have x: "\<not> (\<exists>s \<in> set available. length s = 2 \<and> x = Set_language (Some s))"
    and xs: "\<not> (\<exists>s \<in> set available. length s = 2 \<and> Set_language (Some s) \<in> set xs)"
    by auto
  from Cons.IH [OF xs, of "snd (call available x self)"] call_keeps_language [OF x, of self]
  show ?case unfolding exec_Cons_snd by simp
qed

lemma call_use_meta_language:
  "use_meta_language (snd (call available x self)) \<longleftrightarrow>
     use_meta_language self \<and>
     \<not> (\<exists>s \<in> set available. length s = 2 \<and> x = Set_language (Some s))"
proof (cases "\<exists>s \<in> set available. length s = 2 \<and> x = Set_language (Some s)")
  case True
  then obtain s where "s \<in> set available" "length s = 2" "x = Set_language (Some s)"
    by blast
  then show ?thesis using call_assigns_language(1) [of s available self] by auto
next
  case False
  then show ?thesis by (simp add: call_keeps_language(1))
qed

lemma exec_use_meta_language:
  "use_meta_language (snd (exec cls available xs self)) \<longleftrightarrow>
     use_meta_language self \<and>
     \<not> (\<exists>s \<in> set available. length s = 2 \<and> Set_language (Some s) \<in> set xs)"
proof (induction xs arbitrary: self)
  case Nil
  show ?case by simp
next
  case (Cons x xs)
  show ?case
    unfolding exec_Cons_snd Cons.IH call_use_meta_language by auto
qed

text \<open>Every operation keeps the invariant, hence every sequence does.\<close>

lemma call_consistent:
  assumes "consistent self"
  shows "consistent (snd (call available x self))"
proof (cases "\<exists>s \<in> set available. length s = 2 \<and> x = Set_language (Some s)")
  case True
  then obtain s where "s \<in> set available" "length s = 2" "x = Set_language (Some s)"
    by blast
  then show ?thesis
    using call_assigns_language(2,3) [of s available self] by (simp add: consistent_def)
next
  case False
  with assms show ?thesis by (simp add: consistent_def call_keeps_language)
qed

lemma exec_consistent:
  "consistent self \<Longrightarrow> consistent (snd (exec cls available xs self))"
proof (induction xs arbitrary: self)
  case Nil
  then show ?case by simp
next
  case (Cons x xs)
  from Cons.prems have "consistent (snd (call available x self))"
    by (rule call_consistent)
  then have "consistent (snd (exec cls available xs (snd (call available x self))))"
    by (rule Cons.IH)
  then show ?case by (simp only: exec_Cons_snd)
qed

section \<open>The claims\<close>

text \<open>
  C1. \<open>get_stopwords_class\<close> maps \<open>ko\<close> to the Korean class, \<open>hi\<close> to the Hindi class,
  \<open>zh\<close> to the Chinese class, \<open>ar\<close> and \<open>fa\<close> to the same Arabic class, \<open>ja\<close> to the
  Japanese class, \<open>th\<close> to the Thai class, and every other available code, \<open>en\<close> among
  them, to \<open>StopWords\<close>. Each special class is returned for exactly its code (the
  comparison is that of strings, so a code in capitals is another string), and the call
  returns this class and leaves the instance as it is.
\<close>

theorem get_stopwords_class_mapping:
  "get_stopwords_class ''ko'' = StopWordsKorean \<and>
   get_stopwords_class ''hi'' = StopWordsHindi \<and>
   get_stopwords_class ''zh'' = StopWordsChinese \<and>
   get_stopwords_class ''ar'' = StopWordsArabic \<and>
   get_stopwords_class ''fa'' = get_stopwords_class ''ar'' \<and>
   get_stopwords_class ''ja'' = StopWordsJapanese \<and>
   get_stopwords_class ''th'' = StopWordsThai \<and>
   get_stopwords_class ''en'' = StopWords \<and>
   (l \<in> set available \<and> l \<notin> {''ko'', ''hi'', ''zh'', ''ar'', ''fa'', ''ja'', ''th''}
      \<longrightarrow> get_stopwords_class l = StopWords) \<and>
   (get_stopwords_class l = StopWordsKorean \<longleftrightarrow> l = ''ko'') \<and>
   (get_stopwords_class l = StopWordsHindi \<longleftrightarrow> l = ''hi'') \<and>
   (get_stopwords_class l = StopWordsChinese \<longleftrightarrow> l = ''zh'') \<and>
   (get_stopwords_class l = StopWordsArabic \<longleftrightarrow> l = ''ar'' \<or> l = ''fa'') \<and>
   (get_stopwords_class l = StopWordsJapanese \<longleftrightarrow> l = ''ja'') \<and>
   (get_stopwords_class l = StopWordsThai \<longleftrightarrow> l = ''th'') \<and>
   invoke cls available (Call_get_stopwords_class l) self =
     (Inr (Ret_stopwords (get_stopwords_class l)), self)"
  by (simp add: get_stopwords_class_def invoke_call)

theorem get_stopwords_class_mapping_witness:
  "''de'' \<in> set [''de'', ''en''] \<and> get_stopwords_class ''de'' = StopWords \<and>
   get_stopwords_class ''KO'' \<noteq> StopWordsKorean"
  using get_stopwords_class_mapping [of "''de''" "[''de'', ''en'']" Configuration
      "fst (construct ''0.1'' 0)"]
    get_stopwords_class_mapping [of "''KO''" "[''de'', ''en'']" Configuration
      "fst (construct ''0.1'' 0)"]
  by simp

text \<open>
  C2, as the claim states it, fails in its second half: other operations can raise.
  After \<open>config.headers = None\<close> the key \<open>headers\<close> is present and holds no dictionary,
  so reading \<open>browser_user_agent\<close> raises \<open>AttributeError\<close> and assigning it raises
  \<open>TypeError\<close>; and on an instance without the attribute \<open>requests_params\<close> the
  \<open>headers\<close> getter raises \<open>AttributeError\<close>.
\<close>

theorem other_operations_raise_counterexample:
  "fst (browser_user_agent (snd (headers_setter PyNone (fst (construct ''0.1'' 0))))) =
     Inl AttributeError \<and>
   fst (browser_user_agent_setter (PyStr ''bot/1.0'')
     (snd (headers_setter PyNone (fst (construct ''0.1'' 0))))) = Inl TypeError \<and>
   fst (exec Configuration [''en''] [Set_headers PyNone, Get_browser_user_agent]
     (fst (construct ''0.1'' 0))) = [Inr Ret_none, Inl AttributeError] \<and>
   fst (headers ((fst (construct ''0.1'' 0))\<lparr>requests_params := None\<rparr>)) =
     Inl AttributeError"
  by (simp add: invoke_call returning_def browser_user_agent_def browser_user_agent_setter_def
      headers_def headers_setter_def construct_def)

text \<open>
  C2, amended. The language setter raises exactly when the value is \<open>None\<close>, is the
  empty string, has a length other than 2, or has length 2 and is not in the list of
  available languages, and what it raises is a \<open>ValueError\<close>. An operation raises
  exactly in three cases: it is such a language assignment; it is one of the eight
  accessors of \<open>requests_params\<close> and the instance has no attribute
  \<open>requests_params\<close>; or it is the getter or the setter of \<open>browser_user_agent\<close> and
  the key \<open>headers\<close> holds a value that is not a dictionary. So on an instance whose
  \<open>requests_params\<close> has no key \<open>headers\<close> or a dictionary under it, only a language
  assignment raises.
\<close>

theorem operations_raise_iff:
  "(isl (fst (language_setter available v self)) \<longleftrightarrow>
      (v = None \<or> v = Some [] \<or> (\<exists>s. v = Some s \<and> length s \<noteq> 2) \<or>
       (\<exists>s. v = Some s \<and> length s = 2 \<and> s \<notin> set available))) \<and>
   (fst (language_setter available v self) = Inl e \<longrightarrow> (\<exists>m. e = ValueError m)) \<and>
   (isl (fst (invoke cls available x self)) \<longleftrightarrow>
      (\<exists>w. x = Set_language w \<and> isl (fst (language_setter available w self))) \<or>
      (reads_requests_params x \<and> requests_params self = None) \<or>
      ((x = Get_browser_user_agent \<or> (\<exists>u. x = Set_browser_user_agent u)) \<and>
       (\<exists>rp w. requests_params self = Some rp \<and> rp_headers rp = Some w \<and>
          (\<forall>d. w \<noteq> PyDict d)))) \<and>
   (requests_params self = Some rp \<and>
    (rp_headers rp = None \<or> (\<exists>d. rp_headers rp = Some (PyDict d))) \<and>
    isl (fst (invoke cls available x self)) \<longrightarrow> (\<exists>w. x = Set_language w))"
proof (intro conjI impI)
  show "isl (fst (language_setter available v self)) \<longleftrightarrow>
      (v = None \<or> v = Some [] \<or> (\<exists>s. v = Some s \<and> length s \<noteq> 2) \<or>
       (\<exists>s. v = Some s \<and> length s = 2 \<and> s \<notin> set available))"
    unfolding language_setter_raises by auto
next
  assume "fst (language_setter available v self) = Inl e"
  then show "\<exists>m. e = ValueError m" by (rule language_setter_error_kind)
next
  show "isl (fst (invoke cls available x self)) \<longleftrightarrow>
      (\<exists>w. x = Set_language w \<and> isl (fst (language_setter available w self))) \<or>
      (reads_requests_params x \<and> requests_params self = None) \<or>
      ((x = Get_browser_user_agent \<or> (\<exists>u. x = Set_browser_user_agent u)) \<and>
       (\<exists>rp w. requests_params self = Some rp \<and> rp_headers rp = Some w \<and>
          (\<forall>d. w \<noteq> PyDict d)))"
    unfolding invoke_call call_raises language_setter_raises by simp
next
  assume a: "requests_params self = Some rp \<and>
    (rp_headers rp = None \<or> (\<exists>d. rp_headers rp = Some (PyDict d))) \<and>
    isl (fst (invoke cls available x self))"
  then have "isl (fst (call available x self))" by (simp add: invoke_call)
  with a show "\<exists>w. x = Set_language w"
    unfolding call_raises by auto
qed

theorem operations_raise_iff_witness:
  "fst (language_setter [''en'', ''zh''] (Some ''xx'') (fst (construct ''0.1'' 0))) =
     Inl (ValueError (Not_supported ''xx'')) \<and>
   isl (fst (invoke Configuration [''en'', ''zh''] (Set_language (Some ''xx''))
     (fst (construct ''0.1'' 0)))) \<and>
   (\<exists>m. ValueError (Not_supported ''xx'') = ValueError m) \<and>
   (\<exists>w. Set_language (Some ''xx'') = Set_language w)"
proof -
  have a: "fst (language_setter [''en'', ''zh''] (Some ''xx'') (fst (construct ''0.1'' 0))) =
     Inl (ValueError (Not_supported ''xx''))"
    by (simp add: language_setter_def)
  then have b: "isl (fst (invoke Configuration [''en'', ''zh''] (Set_language (Some ''xx''))
     (fst (construct ''0.1'' 0))))"
    by (simp add: invoke_call returning_fst)
  have c: "requests_params (fst (construct ''0.1'' 0)) =
      Some \<lparr>rp_timeout = Some (PyInt 7), rp_proxies = Some (PyDict Map.empty),
        rp_headers = Some (PyDict [''User-Agent'' \<mapsto> PyStr (''newspaper/'' @ ''0.1'')]),
        rp_cookies = Some (CookieJar 0 [])\<rparr> \<and>
      (rp_headers \<lparr>rp_timeout = Some (PyInt 7), rp_proxies = Some (PyDict Map.empty),
        rp_headers = Some (PyDict [''User-Agent'' \<mapsto> PyStr (''newspaper/'' @ ''0.1'')]),
        rp_cookies = Some (CookieJar 0 [])\<rparr> = None \<or>
       (\<exists>d. rp_headers \<lparr>rp_timeout = Some (PyInt 7), rp_proxies = Some (PyDict Map.empty),
        rp_headers = Some (PyDict [''User-Agent'' \<mapsto> PyStr (''newspaper/'' @ ''0.1'')]),
        rp_cookies = Some (CookieJar 0 [])\<rparr> = Some (PyDict d)))"
    by (simp add: construct_def)
  from a b c operations_raise_iff [of "[''en'', ''zh'']" "Some ''xx''"
      "fst (construct ''0.1'' 0)" "ValueError (Not_supported ''xx'')" Configuration
      "Set_language (Some ''xx'')"
      "\<lparr>rp_timeout = Some (PyInt 7), rp_proxies = Some (PyDict Map.empty),
        rp_headers = Some (PyDict [''User-Agent'' \<mapsto> PyStr (''newspaper/'' @ ''0.1'')]),
        rp_cookies = Some (CookieJar 0 [])\<rparr>"]
  show ?thesis by blast
qed

text \<open>
  C3. An assignment of an invalid language (\<open>None\<close>, a length other than 2, or a code
  that is not available) raises and leaves the whole instance as it was.
\<close>

theorem language_setter_atomic:
  assumes "v = None \<or> (\<exists>s. v = Some s \<and> (length s \<noteq> 2 \<or> s \<notin> set available))"
  shows "isl (fst (language_setter available v self)) \<and>
         snd (language_setter available v self) = self \<and>
         isl (fst (invoke cls available (Set_language v) self)) \<and>
         snd (invoke cls available (Set_language v) self) = self"
proof -
  from assms have r: "isl (fst (language_setter available v self))"
    by (simp add: language_setter_raises)
  then have u: "snd (language_setter available v self) = self"
    by (rule language_setter_unchanged)
  from r u show ?thesis
    by (simp add: invoke_call returning_fst returning_snd)
qed

theorem language_setter_atomic_witness:
  "snd (language_setter [''en'', ''zh''] (Some ''xx'') (fst (construct ''0.1'' 0))) = fst (construct ''0.1'' 0) \<and>
   snd (language_setter [''en'', ''zh''] (Some []) (fst (construct ''0.1'' 0))) = fst (construct ''0.1'' 0) \<and>
   private_language (snd (invoke Configuration [''en'', ''zh''] (Set_language (Some ''eng''))
      (fst (construct ''0.1'' 0)))) = ''en''"
proof -
  have a: "Some ''xx'' = None \<or> (\<exists>s. Some ''xx'' = Some s \<and> (length s \<noteq> 2 \<or> s \<notin> set [''en'', ''zh'']))"
    by simp
  have b: "Some [] = None \<or> (\<exists>s. Some [] = Some s \<and> (length s \<noteq> 2 \<or> s \<notin> set [''en'', ''zh'']))"
    by simp
  have c: "Some ''eng'' = None \<or> (\<exists>s. Some ''eng'' = Some s \<and> (length s \<noteq> 2 \<or> s \<notin> set [''en'', ''zh'']))"
    by simp
  have "private_language (fst (construct ''0.1'' 0)) = ''en''"
    by (simp add: construct_def)
  with language_setter_atomic [OF a, of "fst (construct ''0.1'' 0)" Configuration]
    language_setter_atomic [OF b, of "fst (construct ''0.1'' 0)" Configuration]
    language_setter_atomic [OF c, of "fst (construct ''0.1'' 0)" Configuration]
  show ?thesis by simp
qed

text \<open>
  C4. \<open>__init__\<close> returns an instance (it has no raise) with the language \<open>en\<close>, the
  class \<open>StopWords\<close>, the timeout 7, an empty dictionary of proxies, a new empty cookie
  jar (its identity is the next unused one), and the header \<open>User-Agent\<close> equal to
  \<open>newspaper/\<close> followed by the version; the other attributes have the values of the
  source.
\<close>

theorem construct_defaults:
  "instantiate Configuration version n = Some (construct version n) \<and>
   snd (construct version n) = Suc n \<and>
   private_language (fst (construct version n)) = ''en'' \<and>
   fst (language (fst (construct version n))) = ''en'' \<and>
   stopwords_class (fst (construct version n)) = StopWords \<and>
   use_meta_language (fst (construct version n)) \<and>
   requests_params (fst (construct version n)) =
     Some \<lparr>rp_timeout = Some (PyInt 7),
       rp_proxies = Some (PyDict Map.empty),
       rp_headers = Some (PyDict [''User-Agent'' \<mapsto> PyStr (''newspaper'' @ ''/'' @ version)]),
       rp_cookies = Some (CookieJar n [])\<rparr> \<and>
   fst (request_timeout (fst (construct version n))) = Inr (PyInt 7) \<and>
   fst (proxies (fst (construct version n))) = Inr (PyDict Map.empty) \<and>
   fst (headers (fst (construct version n))) =
     Inr (PyDict [''User-Agent'' \<mapsto> PyStr (''newspaper'' @ ''/'' @ version)]) \<and>
   fst (browser_user_agent (fst (construct version n))) =
     Inr (PyStr (''newspaper'' @ ''/'' @ version)) \<and>
   MIN_WORD_COUNT (fst (construct version n)) = 300 \<and>
   MIN_SENT_COUNT (fst (construct version n)) = 7 \<and>
   MAX_TITLE (fst (construct version n)) = 200 \<and>
   MAX_TEXT (fst (construct version n)) = 100000 \<and>
   MAX_KEYWORDS (fst (construct version n)) = 35 \<and>
   MAX_AUTHORS (fst (construct version n)) = 10 \<and>
   MAX_SUMMARY (fst (construct version n)) = 5000 \<and>
   MAX_SUMMARY_SENT (fst (construct version n)) = 5 \<and>
   MAX_FILE_MEMO (fst (construct version n)) = 20000 \<and>
   memoize_articles (fst (construct version n)) \<and>
   fetch_images (fst (construct version n)) \<and>
   \<not> follow_meta_refresh (fst (construct version n)) \<and>
   \<not> keep_article_html (fst (construct version n)) \<and>
   http_success_only (fst (construct version n)) \<and>
   number_threads (fst (construct version n)) = 10 \<and>
   \<not> verbose (fst (construct version n)) \<and>
   thread_timeout_seconds (fst (construct version n)) = 1 \<and>
   ignored_content_types_defaults (fst (construct version n)) = Map.empty"
  by (simp add: instantiate_construct construct_def language_def request_timeout_def
      proxies_def headers_def browser_user_agent_def dict_get_def)

text \<open>
  C5. On an instance that has \<open>requests_params\<close>, reading a delegated property after
  assigning it succeeds and returns the value assigned, whatever the value: for
  \<open>headers\<close>, \<open>request_timeout\<close> and \<open>proxies\<close> in every such state, for
  \<open>browser_user_agent\<close> when the key \<open>headers\<close> is missing or holds a dictionary, and
  in particular after the key has been removed. The setters of \<open>headers\<close>,
  \<open>request_timeout\<close> and \<open>proxies\<close> put the value in place of whatever was under their
  key and leave the other keys as they were.
\<close>

theorem accessors_round_trip:
  assumes "requests_params self = Some rp"
  shows
  "(rp_headers rp = None \<or> (\<exists>d. rp_headers rp = Some (PyDict d)) \<longrightarrow>
      fst (browser_user_agent_setter v self) = Inr () \<and>
      fst (browser_user_agent (snd (browser_user_agent_setter v self))) = Inr v) \<and>
   fst (browser_user_agent_setter v
      (self\<lparr>requests_params := Some (rp\<lparr>rp_headers := None\<rparr>)\<rparr>)) = Inr () \<and>
   fst (browser_user_agent (snd (browser_user_agent_setter v
      (self\<lparr>requests_params := Some (rp\<lparr>rp_headers := None\<rparr>)\<rparr>)))) = Inr v \<and>
   fst (headers_setter v self) = Inr () \<and>
   fst (headers (snd (headers_setter v self))) = Inr v \<and>
   fst (request_timeout_setter v self) = Inr () \<and>
   fst (request_timeout (snd (request_timeout_setter v self))) = Inr v \<and>
   fst (proxies_setter v self) = Inr () \<and>
   fst (proxies (snd (proxies_setter v self))) = Inr v \<and>
   requests_params (snd (headers_setter v self)) = Some (rp\<lparr>rp_headers := Some v\<rparr>) \<and>
   requests_params (snd (request_timeout_setter v self)) = Some (rp\<lparr>rp_timeout := Some v\<rparr>) \<and>
   requests_params (snd (proxies_setter v self)) = Some (rp\<lparr>rp_proxies := Some v\<rparr>)"
proof -
  have a: "rp_headers rp = None \<or> (\<exists>d. rp_headers rp = Some (PyDict d)) \<longrightarrow>
      fst (browser_user_agent_setter v self) = Inr () \<and>
      fst (browser_user_agent (snd (browser_user_agent_setter v self))) = Inr v"
    using assms
    by (auto simp: browser_user_agent_def browser_user_agent_setter_def dict_get_def)
  have b: "fst (browser_user_agent_setter v
      (self\<lparr>requests_params := Some (rp\<lparr>rp_headers := None\<rparr>)\<rparr>)) = Inr () \<and>
    fst (browser_user_agent (snd (browser_user_agent_setter v
      (self\<lparr>requests_params := Some (rp\<lparr>rp_headers := None\<rparr>)\<rparr>)))) = Inr v"
    by (simp add: browser_user_agent_def browser_user_agent_setter_def dict_get_def)
  have c: "fst (headers_setter v self) = Inr () \<and>
    fst (headers (snd (headers_setter v self))) = Inr v \<and>
    requests_params (snd (headers_setter v self)) = Some (rp\<lparr>rp_headers := Some v\<rparr>)"
    using assms by (simp add: headers_def headers_setter_def)
  have d: "fst (request_timeout_setter v self) = Inr () \<and>
    fst (request_timeout (snd (request_timeout_setter v self))) = Inr v \<and>
    requests_params (snd (request_timeout_setter v self)) = Some (rp\<lparr>rp_timeout := Some v\<rparr>)"
    using assms by (simp add: request_timeout_def request_timeout_setter_def)
  have e: "fst (proxies_setter v self) = Inr () \<and>
    fst (proxies (snd (proxies_setter v self))) = Inr v \<and>
    requests_params (snd (proxies_setter v self)) = Some (rp\<lparr>rp_proxies := Some v\<rparr>)"
    using assms by (simp add: proxies_def proxies_setter_def)
  from a b c d e show ?thesis by blast
qed

theorem accessors_round_trip_witness:
  "fst (browser_user_agent (snd (browser_user_agent_setter (PyStr ''bot/1.0'')
     (fst (construct ''0.1'' 0))))) = Inr (PyStr ''bot/1.0'') \<and>
   fst (headers (snd (headers_setter (PyDict [''Accept'' \<mapsto> PyStr ''text/html''])
     (fst (construct ''0.1'' 0))))) = Inr (PyDict [''Accept'' \<mapsto> PyStr ''text/html'']) \<and>
   fst (request_timeout (snd (request_timeout_setter (PyInt 3)
     (fst (construct ''0.1'' 0))))) = Inr (PyInt 3) \<and>
   fst (proxies (snd (proxies_setter PyNone (fst (construct ''0.1'' 0))))) = Inr PyNone"
proof -
  have c: "requests_params (fst (construct ''0.1'' 0)) =
      Some \<lparr>rp_timeout = Some (PyInt 7), rp_proxies = Some (PyDict Map.empty),
        rp_headers = Some (PyDict [''User-Agent'' \<mapsto> PyStr (''newspaper/'' @ ''0.1'')]),
        rp_cookies = Some (CookieJar 0 [])\<rparr>"
    by (simp add: construct_def)
  have h: "rp_headers \<lparr>rp_timeout = Some (PyInt 7), rp_proxies = Some (PyDict Map.empty),
        rp_headers = Some (PyDict [''User-Agent'' \<mapsto> PyStr (''newspaper/'' @ ''0.1'')]),
        rp_cookies = Some (CookieJar 0 [])\<rparr> = None \<or>
      (\<exists>d. rp_headers \<lparr>rp_timeout = Some (PyInt 7), rp_proxies = Some (PyDict Map.empty),
        rp_headers = Some (PyDict [''User-Agent'' \<mapsto> PyStr (''newspaper/'' @ ''0.1'')]),
        rp_cookies = Some (CookieJar 0 [])\<rparr> = Some (PyDict d))"
    by simp
  from h accessors_round_trip [OF c, of "PyStr ''bot/1.0''"]
    accessors_round_trip [OF c, of "PyDict [''Accept'' \<mapsto> PyStr ''text/html'']"]
    accessors_round_trip [OF c, of "PyInt 3"]
    accessors_round_trip [OF c, of PyNone]
  show ?thesis by blast
qed

text \<open>
  C6. \<open>use_meta_language\<close> is true on a new instance, false after a language assignment
  that succeeds, and once false it is false after every sequence of operations. From a
  new instance it is true exactly as long as no supported two-character code has been
  assigned.
\<close>

theorem use_meta_language_flag:
  "use_meta_language (fst (construct version n)) \<and>
   (fst (language_setter available v self) = Inr () \<longrightarrow>
      \<not> use_meta_language (snd (language_setter available v self))) \<and>
   (\<not> use_meta_language self \<longrightarrow> \<not> use_meta_language (snd (exec cls available xs self))) \<and>
   (use_meta_language (snd (exec cls available xs (fst (construct version n)))) \<longleftrightarrow>
      \<not> (\<exists>s \<in> set available. length s = 2 \<and> Set_language (Some s) \<in> set xs))"
proof (intro conjI impI)
  show c: "use_meta_language (fst (construct version n))"
    by (simp add: construct_def)
  show "use_meta_language (snd (exec cls available xs (fst (construct version n)))) \<longleftrightarrow>
      \<not> (\<exists>s \<in> set available. length s = 2 \<and> Set_language (Some s) \<in> set xs)"
    unfolding exec_use_meta_language using c by simp
next
  assume "fst (language_setter available v self) = Inr ()"
  then show "\<not> use_meta_language (snd (language_setter available v self))"
    by (cases v) (auto simp: language_setter_def Let_def split: if_splits)
next
  assume "\<not> use_meta_language self"
  then show "\<not> use_meta_language (snd (exec cls available xs self))"
    by (simp add: exec_use_meta_language)
qed

theorem use_meta_language_flag_witness:
  "fst (language_setter [''en'', ''zh''] (Some ''zh'') (fst (construct ''0.1'' 0))) = Inr () \<and>
   \<not> use_meta_language (snd (language_setter [''en'', ''zh''] (Some ''zh'') (fst (construct ''0.1'' 0)))) \<and>
   \<not> use_meta_language (snd (exec ArticleConfiguration [''en'', ''zh'']
        [Set_language (Some ''xx''), Set_browser_user_agent (PyStr ''bot/1.0''), Get_headers]
        (snd (language_setter [''en'', ''zh''] (Some ''zh'') (fst (construct ''0.1'' 0))))))"
proof -
  have a: "fst (language_setter [''en'', ''zh''] (Some ''zh'') (fst (construct ''0.1'' 0))) = Inr ()"
    by (simp add: language_setter_def Let_def)
  from a use_meta_language_flag [of "''0.1''" 0 "[''en'', ''zh'']" "Some ''zh''" "fst (construct ''0.1'' 0)"]
  have b: "\<not> use_meta_language (snd (language_setter [''en'', ''zh''] (Some ''zh'') (fst (construct ''0.1'' 0))))"
    by blast
  from b use_meta_language_flag [of "''0.1''" 0 "[''en'', ''zh'']" "Some ''zh''"
      "snd (language_setter [''en'', ''zh''] (Some ''zh'') (fst (construct ''0.1'' 0)))" ArticleConfiguration
      "[Set_language (Some ''xx''), Set_browser_user_agent (PyStr ''bot/1.0''), Get_headers]"]
  have "\<not> use_meta_language (snd (exec ArticleConfiguration [''en'', ''zh'']
        [Set_language (Some ''xx''), Set_browser_user_agent (PyStr ''bot/1.0''), Get_headers]
        (snd (language_setter [''en'', ''zh''] (Some ''zh'') (fst (construct ''0.1'' 0))))))"
    by blast
  with a b show ?thesis by blast
qed

text \<open>
  C7. On a new instance, and after every sequence of operations on it, \<open>stopwords_class\<close>
  is the class that \<open>get_stopwords_class\<close> gives for the current language. The
  assignment of a supported two-character code succeeds and stores the code and its
  class. After a sequence of operations the language is the last such code assigned
  and the class is the class of that code, whatever came before and whatever other
  operations or failing assignments follow; with no such assignment at all a new
  instance keeps \<open>en\<close> and \<open>StopWords\<close>.
\<close>

theorem stopwords_class_consistent:
  "stopwords_class (fst (construct version n)) =
     get_stopwords_class (private_language (fst (construct version n))) \<and>
   stopwords_class (snd (exec cls available xs (fst (construct version n)))) =
     get_stopwords_class (private_language (snd (exec cls available xs (fst (construct version n))))) \<and>
   (length s = 2 \<and> s \<in> set available \<longrightarrow>
      fst (language_setter available (Some s) self) = Inr () \<and>
      private_language (snd (language_setter available (Some s) self)) = s \<and>
      stopwords_class (snd (language_setter available (Some s) self)) = get_stopwords_class s) \<and>
   (length s = 2 \<and> s \<in> set available \<and>
    \<not> (\<exists>t \<in> set available. length t = 2 \<and> Set_language (Some t) \<in> set ys) \<longrightarrow>
      private_language (snd (exec cls available (xs @ Set_language (Some s) # ys) self)) = s \<and>
      stopwords_class (snd (exec cls available (xs @ Set_language (Some s) # ys) self)) =
        get_stopwords_class s) \<and>
   (\<not> (\<exists>t \<in> set available. length t = 2 \<and> Set_language (Some t) \<in> set ys) \<longrightarrow>
      private_language (snd (exec cls available ys (fst (construct version n)))) = ''en'' \<and>
      stopwords_class (snd (exec cls available ys (fst (construct version n)))) = StopWords)"
proof (intro conjI impI)
  have c: "consistent (fst (construct version n))"
    by (simp add: consistent_def construct_def get_stopwords_class_def)
  then show "stopwords_class (fst (construct version n)) =
     get_stopwords_class (private_language (fst (construct version n)))"
    by (simp add: consistent_def)
  from c have "consistent (snd (exec cls available xs (fst (construct version n))))"
    by (rule exec_consistent)
  then show "stopwords_class (snd (exec cls available xs (fst (construct version n)))) =
     get_stopwords_class (private_language (snd (exec cls available xs (fst (construct version n)))))"
    by (simp add: consistent_def)
next
  assume a: "length s = 2 \<and> s \<in> set available"
  then show "fst (language_setter available (Some s) self) = Inr ()"
    and "private_language (snd (language_setter available (Some s) self)) = s"
    and "stopwords_class (snd (language_setter available (Some s) self)) = get_stopwords_class s"
    by (simp_all add: language_setter_stores)
next
  assume a: "length s = 2 \<and> s \<in> set available \<and>
    \<not> (\<exists>t \<in> set available. length t = 2 \<and> Set_language (Some t) \<in> set ys)"
  then have s: "length s = 2" "s \<in> set available"
    and ys: "\<not> (\<exists>t \<in> set available. length t = 2 \<and> Set_language (Some t) \<in> set ys)"
    by simp_all
  have e: "snd (exec cls available (xs @ Set_language (Some s) # ys) self) =
      snd (exec cls available ys (snd (call available (Set_language (Some s))
        (snd (exec cls available xs self)))))"
    by (simp only: exec_append_snd exec_Cons_snd)
  from exec_keeps_language [OF ys] call_assigns_language [OF s]
  show "private_language (snd (exec cls available (xs @ Set_language (Some s) # ys) self)) = s"
    and "stopwords_class (snd (exec cls available (xs @ Set_language (Some s) # ys) self)) =
        get_stopwords_class s"
    unfolding e by simp_all
next
  assume ys: "\<not> (\<exists>t \<in> set available. length t = 2 \<and> Set_language (Some t) \<in> set ys)"
  have "private_language (fst (construct version n)) = ''en''"
    and "stopwords_class (fst (construct version n)) = StopWords"
    by (simp_all add: construct_def)
  with exec_keeps_language [OF ys, of cls "fst (construct version n)"]
  show "private_language (snd (exec cls available ys (fst (construct version n)))) = ''en''"
    and "stopwords_class (snd (exec cls available ys (fst (construct version n)))) = StopWords"
    by simp_all
qed

theorem stopwords_class_consistent_witness:
  "private_language (snd (exec SourceConfiguration [''en'', ''zh'', ''ko'']
      ([Set_language (Some ''ko'')] @ Set_language (Some ''zh'') #
         [Set_language (Some ''xx''), Set_browser_user_agent (PyStr ''bot/1.0'')])
      (fst (construct ''0.1'' 0)))) = ''zh'' \<and>
   stopwords_class (snd (exec SourceConfiguration [''en'', ''zh'', ''ko'']
      ([Set_language (Some ''ko'')] @ Set_language (Some ''zh'') #
         [Set_language (Some ''xx''), Set_browser_user_agent (PyStr ''bot/1.0'')])
      (fst (construct ''0.1'' 0)))) = StopWordsChinese"
proof -
  have a: "length ''zh'' = 2 \<and> ''zh'' \<in> set [''en'', ''zh'', ''ko''] \<and>
    \<not> (\<exists>t \<in> set [''en'', ''zh'', ''ko'']. length t = 2 \<and> Set_language (Some t) \<in>
        set [Set_language (Some ''xx''), Set_browser_user_agent (PyStr ''bot/1.0'')])"
    by simp
  have b: "get_stopwords_class ''zh'' = StopWordsChinese"
    by (simp add: get_stopwords_class_def)
  from a b stopwords_class_consistent [of "''0.1''" 0 SourceConfiguration
      "[''en'', ''zh'', ''ko'']" "[Set_language (Some ''ko'')]" "''zh''"
      "fst (construct ''0.1'' 0)"
      "[Set_language (Some ''xx''), Set_browser_user_agent (PyStr ''bot/1.0'')]"]
  show ?thesis by simp
qed

text \<open>
  C8, as the claim states it, fails. On an instance whose \<open>requests_params\<close> has no key
  \<open>headers\<close>, reading \<open>headers\<close> and assigning \<open>request_timeout\<close> leave the key
  missing. When the key \<open>headers\<close> holds \<open>None\<close>, the assignment of
  \<open>browser_user_agent\<close> raises \<open>TypeError\<close>: nothing is created and the write fails.
  On an instance without the attribute \<open>requests_params\<close>, reading \<open>headers\<close> raises
  \<open>AttributeError\<close> and the attribute is still missing afterwards.
\<close>

theorem headers_not_materialized_counterexample:
  "requests_params (snd (headers
     ((fst (construct ''0.1'' 0))\<lparr>requests_params :=
        Some \<lparr>rp_timeout = Some (PyInt 3), rp_proxies = None, rp_headers = None,
          rp_cookies = None\<rparr>\<rparr>))) =
     Some \<lparr>rp_timeout = Some (PyInt 3), rp_proxies = None, rp_headers = None,
       rp_cookies = None\<rparr> \<and>
   requests_params (snd (request_timeout_setter (PyInt 5)
     ((fst (construct ''0.1'' 0))\<lparr>requests_params :=
        Some \<lparr>rp_timeout = Some (PyInt 3), rp_proxies = None, rp_headers = None,
          rp_cookies = None\<rparr>\<rparr>))) =
     Some \<lparr>rp_timeout = Some (PyInt 5), rp_proxies = None, rp_headers = None,
       rp_cookies = None\<rparr> \<and>
   browser_user_agent_setter (PyStr ''bot/1.0'')
     ((fst (construct ''0.1'' 0))\<lparr>requests_params :=
        Some \<lparr>rp_timeout = Some (PyInt 3), rp_proxies = None, rp_headers = Some PyNone,
          rp_cookies = None\<rparr>\<rparr>) =
     (Inl TypeError,
      (fst (construct ''0.1'' 0))\<lparr>requests_params :=
        Some \<lparr>rp_timeout = Some (PyInt 3), rp_proxies = None, rp_headers = Some PyNone,
          rp_cookies = None\<rparr>\<rparr>) \<and>
   headers ((fst (construct ''0.1'' 0))\<lparr>requests_params := None\<rparr>) =
     (Inl AttributeError, (fst (construct ''0.1'' 0))\<lparr>requests_params := None\<rparr>)"
  by (simp add: headers_def request_timeout_setter_def browser_user_agent_setter_def)

text \<open>
  C8, amended. When \<open>requests_params\<close> has no key \<open>headers\<close>, the getter and the
  setter of \<open>browser_user_agent\<close> first create an empty dictionary under it: the getter
  returns \<open>None\<close>, the setter stores the one entry, neither fails. When the key holds
  a dictionary, the getter returns the entry \<open>User-Agent\<close>, \<open>None\<close> when there is none,
  and the setter adds it. When the key holds anything else, the getter raises
  \<open>AttributeError\<close> and the setter \<open>TypeError\<close>, and the instance is unchanged. The
  getters of \<open>headers\<close>, \<open>request_timeout\<close> and \<open>proxies\<close> return the value under
  their key, \<open>None\<close> when the key is missing, and change nothing: they do not create
  the key. No accessor creates \<open>requests_params\<close>: on an instance without it each of
  the eight accessors raises \<open>AttributeError\<close> and leaves the instance as it is.
\<close>

theorem accessors_missing_keys:
  "(requests_params self = Some rp \<and> rp_headers rp = None \<longrightarrow>
      browser_user_agent self =
        (Inr PyNone, self\<lparr>requests_params := Some (rp\<lparr>rp_headers := Some (PyDict Map.empty)\<rparr>)\<rparr>) \<and>
      browser_user_agent_setter v self =
        (Inr (), self\<lparr>requests_params :=
           Some (rp\<lparr>rp_headers := Some (PyDict [''User-Agent'' \<mapsto> v])\<rparr>)\<rparr>) \<and>
      headers self = (Inr PyNone, self)) \<and>
   (requests_params self = Some rp \<and> rp_headers rp = Some (PyDict d) \<longrightarrow>
      browser_user_agent self =
        (Inr (case d ''User-Agent'' of None \<Rightarrow> PyNone | Some u \<Rightarrow> u), self) \<and>
      browser_user_agent_setter v self =
        (Inr (), self\<lparr>requests_params :=
           Some (rp\<lparr>rp_headers := Some (PyDict (d(''User-Agent'' \<mapsto> v)))\<rparr>)\<rparr>)) \<and>
   (requests_params self = Some rp \<and> rp_headers rp = Some w \<and> (\<forall>d. w \<noteq> PyDict d) \<longrightarrow>
      browser_user_agent self = (Inl AttributeError, self) \<and>
      browser_user_agent_setter v self = (Inl TypeError, self)) \<and>
   (requests_params self = Some rp \<and> rp_headers rp = Some w \<longrightarrow> headers self = (Inr w, self)) \<and>
   (requests_params self = Some rp \<and> rp_timeout rp = None \<longrightarrow>
      request_timeout self = (Inr PyNone, self)) \<and>
   (requests_params self = Some rp \<and> rp_timeout rp = Some w \<longrightarrow>
      request_timeout self = (Inr w, self)) \<and>
   (requests_params self = Some rp \<and> rp_proxies rp = None \<longrightarrow>
      proxies self = (Inr PyNone, self)) \<and>
   (requests_params self = Some rp \<and> rp_proxies rp = Some w \<longrightarrow>
      proxies self = (Inr w, self)) \<and>
   (requests_params self = None \<and> reads_requests_params x \<longrightarrow>
      invoke cls available x self = (Inl AttributeError, self))"
proof -
  have a: "requests_params self = Some rp \<and> rp_headers rp = None \<longrightarrow>
      browser_user_agent self =
        (Inr PyNone, self\<lparr>requests_params := Some (rp\<lparr>rp_headers := Some (PyDict Map.empty)\<rparr>)\<rparr>) \<and>
      browser_user_agent_setter v self =
        (Inr (), self\<lparr>requests_params :=
           Some (rp\<lparr>rp_headers := Some (PyDict [''User-Agent'' \<mapsto> v])\<rparr>)\<rparr>) \<and>
      headers self = (Inr PyNone, self)"
    by (simp add: browser_user_agent_def browser_user_agent_setter_def headers_def dict_get_def)
  have b: "requests_params self = Some rp \<and> rp_headers rp = Some (PyDict d) \<longrightarrow>
      browser_user_agent self =
        (Inr (case d ''User-Agent'' of None \<Rightarrow> PyNone | Some u \<Rightarrow> u), self) \<and>
      browser_user_agent_setter v self =
        (Inr (), self\<lparr>requests_params :=
           Some (rp\<lparr>rp_headers := Some (PyDict (d(''User-Agent'' \<mapsto> v)))\<rparr>)\<rparr>)"
    by (simp add: browser_user_agent_def browser_user_agent_setter_def dict_get_def)
  have c: "requests_params self = Some rp \<and> rp_headers rp = Some w \<and> (\<forall>d. w \<noteq> PyDict d) \<longrightarrow>
      browser_user_agent self = (Inl AttributeError, self) \<and>
      browser_user_agent_setter v self = (Inl TypeError, self)"
    by (cases w) (simp_all add: browser_user_agent_def browser_user_agent_setter_def)
  have e: "(requests_params self = Some rp \<and> rp_headers rp = Some w \<longrightarrow>
       headers self = (Inr w, self)) \<and>
     (requests_params self = Some rp \<and> rp_timeout rp = None \<longrightarrow>
       request_timeout self = (Inr PyNone, self)) \<and>
     (requests_params self = Some rp \<and> rp_timeout rp = Some w \<longrightarrow>
       request_timeout self = (Inr w, self)) \<and>
     (requests_params self = Some rp \<and> rp_proxies rp = None \<longrightarrow>
       proxies self = (Inr PyNone, self)) \<and>
     (requests_params self = Some rp \<and> rp_proxies rp = Some w \<longrightarrow>
       proxies self = (Inr w, self))"
    by (simp add: headers_def request_timeout_def proxies_def)
  have f: "requests_params self = None \<and> reads_requests_params x \<longrightarrow>
      invoke cls available x self = (Inl AttributeError, self)"
    by (cases x) (simp_all add: invoke_call returning_def browser_user_agent_def
        browser_user_agent_setter_def headers_def headers_setter_def request_timeout_def
        request_timeout_setter_def proxies_def proxies_setter_def)
  from a b c e f show ?thesis by blast
qed

theorem accessors_missing_keys_witness:
  "fst (browser_user_agent
     ((fst (construct ''0.1'' 0))\<lparr>requests_params :=
        Some \<lparr>rp_timeout = None, rp_proxies = None, rp_headers = None,
          rp_cookies = None\<rparr>\<rparr>)) = Inr PyNone \<and>
   fst (browser_user_agent_setter (PyStr ''bot/1.0'')
     ((fst (construct ''0.1'' 0))\<lparr>requests_params :=
        Some \<lparr>rp_timeout = None, rp_proxies = None, rp_headers = None,
          rp_cookies = None\<rparr>\<rparr>)) = Inr () \<and>
   fst (headers
     ((fst (construct ''0.1'' 0))\<lparr>requests_params :=
        Some \<lparr>rp_timeout = None, rp_proxies = None, rp_headers = None,
          rp_cookies = None\<rparr>\<rparr>)) = Inr PyNone \<and>
   fst (request_timeout
     ((fst (construct ''0.1'' 0))\<lparr>requests_params :=
        Some \<lparr>rp_timeout = None, rp_proxies = None, rp_headers = None,
          rp_cookies = None\<rparr>\<rparr>)) = Inr PyNone \<and>
   fst (proxies
     ((fst (construct ''0.1'' 0))\<lparr>requests_params :=
        Some \<lparr>rp_timeout = None, rp_proxies = None, rp_headers = None,
          rp_cookies = None\<rparr>\<rparr>)) = Inr PyNone"
proof -
  have k: "requests_params ((fst (construct ''0.1'' 0))\<lparr>requests_params :=
        Some \<lparr>rp_timeout = None, rp_proxies = None, rp_headers = None,
          rp_cookies = None\<rparr>\<rparr>) =
      Some \<lparr>rp_timeout = None, rp_proxies = None, rp_headers = None, rp_cookies = None\<rparr>"
    "rp_headers \<lparr>rp_timeout = None, rp_proxies = None, rp_headers = None,
       rp_cookies = None\<rparr> = None"
    "rp_timeout \<lparr>rp_timeout = None, rp_proxies = None, rp_headers = None,
       rp_cookies = None\<rparr> = None"
    "rp_proxies \<lparr>rp_timeout = None, rp_proxies = None, rp_headers = None,
       rp_cookies = None\<rparr> = None"
    by simp_all
  from k accessors_missing_keys [where self = "(fst (construct ''0.1'' 0))\<lparr>requests_params :=
        Some \<lparr>rp_timeout = None, rp_proxies = None, rp_headers = None,
          rp_cookies = None\<rparr>\<rparr>"
      and rp = "\<lparr>rp_timeout = None, rp_proxies = None, rp_headers = None, rp_cookies = None\<rparr>"
      and v = "PyStr ''bot/1.0''" and d = Map.empty and w = PyNone
      and x = Get_headers and cls = SourceConfiguration and available = "[''en'']"]
  have "browser_user_agent ((fst (construct ''0.1'' 0))\<lparr>requests_params :=
        Some \<lparr>rp_timeout = None, rp_proxies = None, rp_headers = None,
          rp_cookies = None\<rparr>\<rparr>) =
      (Inr PyNone, (fst (construct ''0.1'' 0))\<lparr>requests_params :=
        Some \<lparr>rp_timeout = None, rp_proxies = None, rp_headers = None,
          rp_cookies = None\<rparr>\<rparr>\<lparr>requests_params :=
        Some (\<lparr>rp_timeout = None, rp_proxies = None, rp_headers = None,
          rp_cookies = None\<rparr>\<lparr>rp_headers := Some (PyDict Map.empty)\<rparr>)\<rparr>)"
    and "browser_user_agent_setter (PyStr ''bot/1.0'')
      ((fst (construct ''0.1'' 0))\<lparr>requests_params :=
        Some \<lparr>rp_timeout = None, rp_proxies = None, rp_headers = None,
          rp_cookies = None\<rparr>\<rparr>) =
      (Inr (), (fst (construct ''0.1'' 0))\<lparr>requests_params :=
        Some \<lparr>rp_timeout = None, rp_proxies = None, rp_headers = None,
          rp_cookies = None\<rparr>\<rparr>\<lparr>requests_params :=
        Some (\<lparr>rp_timeout = None, rp_proxies = None, rp_headers = None,
          rp_cookies = None\<rparr>\<lparr>rp_headers := Some (PyDict [''User-Agent'' \<mapsto> PyStr ''bot/1.0''])\<rparr>)\<rparr>)"
    and "headers ((fst (construct ''0.1'' 0))\<lparr>requests_params :=
        Some \<lparr>rp_timeout = None, rp_proxies = None, rp_headers = None,
          rp_cookies = None\<rparr>\<rparr>) =
      (Inr PyNone, (fst (construct ''0.1'' 0))\<lparr>requests_params :=
        Some \<lparr>rp_timeout = None, rp_proxies = None, rp_headers = None,
          rp_cookies = None\<rparr>\<rparr>)"
    and "request_timeout ((fst (construct ''0.1'' 0))\<lparr>requests_params :=
        Some \<lparr>rp_timeout = None, rp_proxies = None, rp_headers = None,
          rp_cookies = None\<rparr>\<rparr>) =
      (Inr PyNone, (fst (construct ''0.1'' 0))\<lparr>requests_params :=
        Some \<lparr>rp_timeout = None, rp_proxies = None, rp_headers = None,
          rp_cookies = None\<rparr>\<rparr>)"
    and "proxies ((fst (construct ''0.1'' 0))\<lparr>requests_params :=
        Some \<lparr>rp_timeout = None, rp_proxies = None, rp_headers = None,
          rp_cookies = None\<rparr>\<rparr>) =
      (Inr PyNone, (fst (construct ''0.1'' 0))\<lparr>requests_params :=
        Some \<lparr>rp_timeout = None, rp_proxies = None, rp_headers = None,
          rp_cookies = None\<rparr>\<rparr>)"
    by blast+
  then show ?thesis by (simp only: fst_conv simp_thms)
qed

text \<open>
  C9. The bodies of \<open>ArticleConfiguration\<close> and \<open>SourceConfiguration\<close> define nothing:
  every lookup resolves to what \<open>Configuration\<close> defines, so construction, every single
  operation and every sequence of operations give the same results and the same instance
  state as on \<open>Configuration\<close>.
\<close>

theorem subclasses_identical:
  "mro_lookup body_init (mro ArticleConfiguration) = mro_lookup body_init (mro Configuration) \<and>
   mro_lookup body_init (mro SourceConfiguration) = mro_lookup body_init (mro Configuration) \<and>
   mro_lookup (body_op x) (mro ArticleConfiguration) = mro_lookup (body_op x) (mro Configuration) \<and>
   mro_lookup (body_op x) (mro SourceConfiguration) = mro_lookup (body_op x) (mro Configuration) \<and>
   instantiate ArticleConfiguration version n = instantiate Configuration version n \<and>
   instantiate SourceConfiguration version n = instantiate Configuration version n \<and>
   invoke ArticleConfiguration available x self = invoke Configuration available x self \<and>
   invoke SourceConfiguration available x self = invoke Configuration available x self \<and>
   exec ArticleConfiguration available xs self = exec Configuration available xs self \<and>
   exec SourceConfiguration available xs self = exec Configuration available xs self"
proof -
  have e: "exec cls available xs self = exec Configuration available xs self" for cls
    by (induction xs arbitrary: self) (simp_all add: invoke_call)
  show ?thesis
    by (simp add: instantiate_construct invoke_call e [of ArticleConfiguration]
        e [of SourceConfiguration])
qed

text \<open>
  C10. \<open>get_stopwords_class\<close> returns \<open>StopWords\<close> for every string other than the seven
  codes it names, whatever its length, and the call neither raises nor changes the
  instance.
\<close>

theorem get_stopwords_class_default:
  assumes "l \<notin> {''ko'', ''hi'', ''zh'', ''ar'', ''fa'', ''ja'', ''th''}"
  shows "get_stopwords_class l = StopWords \<and>
         invoke cls available (Call_get_stopwords_class l) self = (Inr (Ret_stopwords StopWords), self)"
  using assms by (simp add: get_stopwords_class_def invoke_call)

theorem get_stopwords_class_default_witness:
  "get_stopwords_class [] = StopWords \<and> get_stopwords_class ''xx'' = StopWords \<and>
   get_stopwords_class ''kor'' = StopWords \<and> get_stopwords_class ''k'' = StopWords"
proof -
  have a: "[] \<notin> {''ko'', ''hi'', ''zh'', ''ar'', ''fa'', ''ja'', ''th''}"
    and b: "''xx'' \<notin> {''ko'', ''hi'', ''zh'', ''ar'', ''fa'', ''ja'', ''th''}"
    and c: "''kor'' \<notin> {''ko'', ''hi'', ''zh'', ''ar'', ''fa'', ''ja'', ''th''}"
    and d: "''k'' \<notin> {''ko'', ''hi'', ''zh'', ''ar'', ''fa'', ''ja'', ''th''}"
    by simp_all
  from get_stopwords_class_default [OF a, of Configuration "[]" "fst (construct [] 0)"]
    get_stopwords_class_default [OF b, of Configuration "[]" "fst (construct [] 0)"]
    get_stopwords_class_default [OF c, of Configuration "[]" "fst (construct [] 0)"]
    get_stopwords_class_default [OF d, of Configuration "[]" "fst (construct [] 0)"]
  show ?thesis by simp
qed

end
